theory Spec2Isabelle
  imports Main "HOL-Library.Sublist"
begin

section \<open>ASYCUDA XML converter: the document mapper of \<^verbatim>\<open>batch.py\<close>\<close>

subsection \<open>Data model\<close>

text \<open>
  An \<^verbatim>\<open>xml.etree.ElementTree.Element\<close> as the mapper uses it: a tag, an optional text
  (\<^verbatim>\<open>None\<close> until it is assigned) and the ordered list of its children. Attributes and
  tails are never set by the program.
\<close>

datatype element = Element (tag: string) (etext: "string option") (children: "element list")

text \<open>
  A header record or an item record is a Python \<^verbatim>\<open>dict\<close> from column names to strings;
  \<^verbatim>\<open>d.get(key, default)\<close> returns the stored value whenever the key is present (also when
  the stored value is the empty string) and the default otherwise.
\<close>

type_synonym row = "string \<rightharpoonup> string"

definition dict_get :: "row \<Rightarrow> string \<Rightarrow> string \<Rightarrow> string" where
  "dict_get d key dflt = (case d key of Some v \<Rightarrow> v | None \<Rightarrow> dflt)"

text \<open>
  The table \<^verbatim>\<open>CONSIGNMENT_VALUES\<close> is a dict literal whose keys are fixed; every
  subscript in the program uses one of these keys literally, so the table is a record and
  \<^verbatim>\<open>CONSIGNMENT_VALUES['k']\<close> is the field \<open>k\<close>.
\<close>

record consignment_values =
  total_invoice :: string
  total_cif :: string
  total_cost :: string
  external_freight_foreign :: string
  external_freight_national :: string
  insurance_foreign :: string
  insurance_national :: string
  other_cost_foreign :: string
  other_cost_national :: string
  total_cif_itm :: string
  statistical_value :: string
  alpha_coefficient :: string
  duty_tax_base :: string
  duty_tax_rate :: string
  duty_tax_amount :: string
  total_item_taxes :: string
  calculation_working_mode :: string
  container_flag :: string
  delivery_terms_code :: string
  currency_rate :: string
  manifest_reference :: string
  total_forms :: string

definition CONSIGNMENT_VALUES :: consignment_values where
  "CONSIGNMENT_VALUES = \<lparr>
     total_invoice = ''2006.64'',
     total_cif = ''4212.99'',
     total_cost = ''621.1'',
     external_freight_foreign = ''4.78'',
     external_freight_national = ''8.56'',
     insurance_foreign = ''0.58'',
     insurance_national = ''1.04'',
     other_cost_foreign = ''0.47'',
     other_cost_national = ''0.84'',
     total_cif_itm = ''70.8'',
     statistical_value = ''71'',
     alpha_coefficient = ''0.0168042100227245'',
     duty_tax_base = ''71'',
     duty_tax_rate = ''6'',
     duty_tax_amount = ''4.3'',
     total_item_taxes = ''347.75'',
     calculation_working_mode = ''0'',
     container_flag = ''False'',
     delivery_terms_code = ''DDP'',
     currency_rate = ''1.79'',
     manifest_reference = ''LV02 2025 6241'',
     total_forms = ''16'' \<rparr>"

subsection \<open>Building elements\<close>

text \<open>
  \<^verbatim>\<open>ET.SubElement(parent, tag)\<close> creates an element and appends it to the children of
  \<^verbatim>\<open>parent\<close>. Every builder of the program appends only to elements that it is still
  constructing, so the tree it leaves behind is the term that lists, under each element, the
  children in the order of their creation. \<open>SubElement tag_name kids\<close> is the element
  created by \<^verbatim>\<open>ET.SubElement(parent, tag_name)\<close> once the children \<open>kids\<close> have been
  appended to it; \<open>add_element tag_name text_content\<close> is the element that
  \<^verbatim>\<open>add_element(parent, tag_name, text_content)\<close> appends to \<^verbatim>\<open>parent\<close> and returns.
  The element is created before the text is looked at: only the assignment of the text is
  conditional.
\<close>

definition SubElement :: "string \<Rightarrow> element list \<Rightarrow> element" where
  "SubElement tag_name kids = Element tag_name None kids"

definition add_element :: "string \<Rightarrow> string \<Rightarrow> element" where
  "add_element tag_name text_content =
     (let element = Element tag_name None [] in
      if text_content \<noteq> [] \<and> text_content \<noteq> ''nan'' \<and> text_content \<noteq> ''None''
         \<and> text_content \<noteq> ''''
      then Element (tag element) (Some text_content) (children element)
      else element)"

subsection \<open>Per-item builders\<close>

definition create_item_supplementary_unit :: "row \<Rightarrow> string \<Rightarrow> element" where
  "create_item_supplementary_unit item_data unit_num =
     SubElement ''Supplementary_unit''
       (if unit_num = ''1'' then
          [add_element ''Supplementary_unit_rank'' '''',
           add_element ''Supplementary_unit_code'' (dict_get item_data ''Supplementary_unit_code'' ''PCE''),
           add_element ''Supplementary_unit_name'' (dict_get item_data ''Supplementary_unit_name_1'' ''Aantal Stucks''),
           add_element ''Supplementary_unit_quantity'' (dict_get item_data ''Supplementary_unit_quantity_1'' '''')]
        else if unit_num = ''2'' then
          [add_element ''Supplementary_unit_rank'' ''2'',
           add_element ''Supplementary_unit_name'' (dict_get item_data ''Supplementary_unit_name_2'' ''''),
           add_element ''Supplementary_unit_quantity'' (dict_get item_data ''Supplementary_unit_quantity_2'' '''')]
        else
          [add_element ''Supplementary_unit_rank'' ''3'',
           add_element ''Supplementary_unit_name'' (dict_get item_data ''Supplementary_unit_name_3'' ''''),
           add_element ''Supplementary_unit_quantity'' (dict_get item_data ''Supplementary_unit_quantity_3'' '''')])"

text \<open>
  \<^verbatim>\<open>create_item_valuation_subsections(parent, item_data)\<close> appends six blocks to
  \<^verbatim>\<open>parent\<close>; the model returns them in the order in which they are appended.
\<close>

definition create_item_valuation_subsections :: "row \<Rightarrow> element list" where
  "create_item_valuation_subsections item_data =
     [SubElement ''Invoice''
        [add_element ''Amount_national_currency'' '''',
         add_element ''Amount_foreign_currency'' (dict_get item_data ''Invoice Amount_foreign_currency'' ''''),
         add_element ''Currency_code'' ''USD'',
         add_element ''Currency_name'' ''Geen vreemde valuta'',
         add_element ''Currency_rate'' (currency_rate CONSIGNMENT_VALUES)],
      SubElement ''External_freight''
        [add_element ''Amount_national_currency'' (external_freight_national CONSIGNMENT_VALUES),
         add_element ''Amount_foreign_currency'' (external_freight_foreign CONSIGNMENT_VALUES),
         add_element ''Currency_code'' ''USD'',
         add_element ''Currency_name'' ''Geen vreemde valuta'',
         add_element ''Currency_rate'' (currency_rate CONSIGNMENT_VALUES)],
      SubElement ''Internal_freight''
        [add_element ''Amount_national_currency'' ''0'',
         add_element ''Amount_foreign_currency'' '''',
         add_element ''Currency_code'' '''',
         add_element ''Currency_name'' ''Geen vreemde valuta'',
         add_element ''Currency_rate'' ''0''],
      SubElement ''Insurance''
        [add_element ''Amount_national_currency'' (insurance_national CONSIGNMENT_VALUES),
         add_element ''Amount_foreign_currency'' (insurance_foreign CONSIGNMENT_VALUES),
         add_element ''Currency_code'' ''USD'',
         add_element ''Currency_name'' ''Geen vreemde valuta'',
         add_element ''Currency_rate'' (currency_rate CONSIGNMENT_VALUES)],
      SubElement ''Other_cost''
        [add_element ''Amount_national_currency'' (other_cost_national CONSIGNMENT_VALUES),
         add_element ''Amount_foreign_currency'' (other_cost_foreign CONSIGNMENT_VALUES),
         add_element ''Currency_code'' ''USD'',
         add_element ''Currency_name'' ''Geen vreemde valuta'',
         add_element ''Currency_rate'' (currency_rate CONSIGNMENT_VALUES)],
      SubElement ''Deduction''
        [add_element ''Amount_national_currency'' ''0'',
         add_element ''Amount_foreign_currency'' ''0'',
         add_element ''Currency_code'' ''USD'',
         add_element ''Currency_name'' ''Geen vreemde valuta'',
         add_element ''Currency_rate'' (currency_rate CONSIGNMENT_VALUES)]]"

text \<open>
  \<^verbatim>\<open>create_item_element(parent, item_data, item_number)\<close> appends one \<^verbatim>\<open>Item\<close> element
  to \<^verbatim>\<open>parent\<close>; the model returns that element. The item number is received and never
  used, as in the source.
\<close>

definition create_item_element :: "row \<Rightarrow> nat \<Rightarrow> element" where
  "create_item_element item_data item_number =
     SubElement ''Item''
       [SubElement ''Packages''
          [add_element ''Number_of_packages'' (dict_get item_data ''Number_of_packages'' ''''),
           add_element ''Marks1_of_packages'' (dict_get item_data ''Marks1_of_packages'' ''''),
           add_element ''Marks2_of_packages'' (dict_get item_data ''Marks2_of_packages'' ''''),
           add_element ''Kind_of_packages_code'' (dict_get item_data ''Kind_of_packages_code'' ''STKS''),
           add_element ''Kind_of_packages_name'' (dict_get item_data ''Kind_of_packages_name'' ''Stuks'')],
        SubElement ''Tariff''
          [add_element ''Extended_customs_procedure'' (dict_get item_data ''Extended_customs_procedure'' ''4000''),
           add_element ''National_customs_procedure'' (dict_get item_data ''National_customs_procedure'' ''00:00:00''),
           add_element ''Preference_code'' (dict_get item_data ''Preference_code'' ''''),
           SubElement ''Harmonized_system''
             [add_element ''Commodity_code'' (dict_get item_data ''Commodity_code'' ''''),
              add_element ''Precision_4'' (dict_get item_data ''Precision_4'' '''')],
           create_item_supplementary_unit item_data ''1'',
           create_item_supplementary_unit item_data ''2'',
           create_item_supplementary_unit item_data ''3'',
           SubElement ''Quota''
             [add_element ''Quota_code'' (dict_get item_data ''Quota_code'' '''')]],
        SubElement ''Goods_description''
          [add_element ''Country_of_origin_code'' (dict_get item_data ''Country_of_origin_code'' ''US''),
           add_element ''Description_of_goods'' (dict_get item_data ''Description_of_goods'' ''''),
           add_element ''Commercial_description'' (dict_get item_data ''Commercial_description'' '''')],
        SubElement ''Valuation_item''
          ([add_element ''Rate_of_adjustment'' ''1'',
            add_element ''Total_cost_itm'' '''',
            add_element ''Total_cif_itm'' (total_cif_itm CONSIGNMENT_VALUES),
            add_element ''Statistical_value'' (statistical_value CONSIGNMENT_VALUES),
            add_element ''Alpha_coeficient_of_apportionment'' (alpha_coefficient CONSIGNMENT_VALUES),
            SubElement ''Weight''
              [add_element ''Gross_weight_itm'' (dict_get item_data ''Gross_weight_itm'' ''0.5''),
               add_element ''Net_weight_itm'' (dict_get item_data ''Net_weight_itm'' ''0.5'')]]
           @ create_item_valuation_subsections item_data),
        SubElement ''Previous_document''
          [add_element ''Summary_declaration'' (dict_get item_data ''Summary_declaration'' ''''),
           add_element ''Summary_declaration_sl'' (dict_get item_data ''Summary_declaration_sl'' ''1'')],
        SubElement ''Taxation''
          [add_element ''Item_taxes_amount'' (duty_tax_amount CONSIGNMENT_VALUES),
           add_element ''Item_taxes_mode_of_payment'' ''1'',
           SubElement ''Taxation_line''
             [add_element ''Duty_tax_code'' ''IR'',
              add_element ''Duty_tax_base'' (duty_tax_base CONSIGNMENT_VALUES),
              add_element ''Duty_tax_rate'' (duty_tax_rate CONSIGNMENT_VALUES),
              add_element ''Duty_tax_amount'' (duty_tax_amount CONSIGNMENT_VALUES),
              add_element ''Duty_tax_MP'' ''1'']]]"

subsection \<open>Numbers and their decimal strings\<close>

text \<open>
  \<^verbatim>\<open>calculate_form_totals\<close> computes with Python numbers: the accumulator starts as the
  \<^verbatim>\<open>int\<close> 0 and becomes a \<^verbatim>\<open>float\<close> as soon as a float is added. The floating-point
  library itself (parsing by \<^verbatim>\<open>float(s)\<close>, addition, conversion of an \<^verbatim>\<open>int\<close>, printing
  by \<^verbatim>\<open>str\<close>) is not part of the program; it is a parameter of the model, with
  \<open>float_of_str ops s = None\<close> standing for the \<^verbatim>\<open>ValueError\<close> that \<^verbatim>\<open>float(s)\<close> raises.
\<close>

datatype 'f pynum = PyInt int | PyFloat 'f

record 'f float_ops =
  float_of_str :: "string \<Rightarrow> 'f option"
  float_of_int :: "int \<Rightarrow> 'f"
  float_add :: "'f \<Rightarrow> 'f \<Rightarrow> 'f"
  float_str :: "'f \<Rightarrow> string"

fun py_add :: "'f float_ops \<Rightarrow> 'f pynum \<Rightarrow> 'f pynum \<Rightarrow> 'f pynum" where
  "py_add ops (PyInt a) (PyInt b) = PyInt (a + b)"
| "py_add ops (PyInt a) (PyFloat y) = PyFloat (float_add ops (float_of_int ops a) y)"
| "py_add ops (PyFloat x) (PyInt b) = PyFloat (float_add ops x (float_of_int ops b))"
| "py_add ops (PyFloat x) (PyFloat y) = PyFloat (float_add ops x y)"

definition digit_char :: "nat \<Rightarrow> char" where
  "digit_char d = ''0123456789'' ! (d mod 10)"

fun str_nat :: "nat \<Rightarrow> string" where
  "str_nat n = (if n < 10 then [digit_char n] else str_nat (n div 10) @ [digit_char (n mod 10)])"

definition str_int :: "int \<Rightarrow> string" where
  "str_int i = (if i < 0 then ''-'' @ str_nat (nat (- i)) else str_nat (nat i))"

fun py_str :: "'f float_ops \<Rightarrow> 'f pynum \<Rightarrow> string" where
  "py_str ops (PyInt i) = str_int i"
| "py_str ops (PyFloat x) = float_str ops x"

subsection \<open>Form totals\<close>

text \<open>
  The loop of \<^verbatim>\<open>calculate_form_totals\<close>, with the running total as accumulator. An empty
  value adds the \<^verbatim>\<open>int\<close> 0; a value that \<^verbatim>\<open>float\<close> rejects raises inside the
  \<^verbatim>\<open>try\<close> and the bare \<^verbatim>\<open>except: pass\<close> leaves the total as it was.
\<close>

fun calculate_form_totals_loop :: "'f float_ops \<Rightarrow> 'f pynum \<Rightarrow> row list \<Rightarrow> 'f pynum" where
  "calculate_form_totals_loop ops invoice_foreign_total [] = invoice_foreign_total"
| "calculate_form_totals_loop ops invoice_foreign_total (item # items) =
     (let inv_foreign = dict_get item ''Invoice Amount_foreign_currency'' ''0'' in
      calculate_form_totals_loop ops
        (if inv_foreign \<noteq> '''' then
           (case float_of_str ops inv_foreign of
              Some x \<Rightarrow> py_add ops invoice_foreign_total (PyFloat x)
            | None \<Rightarrow> invoice_foreign_total)
         else py_add ops invoice_foreign_total (PyInt 0))
        items)"

definition calculate_form_totals :: "'f float_ops \<Rightarrow> row list \<Rightarrow> 'f pynum" where
  "calculate_form_totals ops items_data = calculate_form_totals_loop ops (PyInt 0) items_data"

subsection \<open>Declaration-level builders\<close>

definition create_valuation_subsections :: "'f float_ops \<Rightarrow> 'f pynum \<Rightarrow> element list" where
  "create_valuation_subsections ops form_invoice_foreign =
     [SubElement ''Invoice''
        [add_element ''Amount_national_currency'' ''3591.89'',
         add_element ''Amount_foreign_currency'' (py_str ops form_invoice_foreign),
         add_element ''Currency_code'' ''USD'',
         add_element ''Currency_name'' ''Geen vreemde valuta'',
         add_element ''Currency_rate'' (currency_rate CONSIGNMENT_VALUES)],
      SubElement ''External_freight''
        [add_element ''Amount_national_currency'' ''509.24'',
         add_element ''Amount_foreign_currency'' ''17.27'',
         add_element ''Currency_code'' ''USD'',
         add_element ''Currency_name'' ''Geen vreemde valuta'',
         add_element ''Currency_rate'' (currency_rate CONSIGNMENT_VALUES)],
      SubElement ''Internal_freight''
        [add_element ''Amount_national_currency'' ''0'',
         add_element ''Amount_foreign_currency'' ''0'',
         add_element ''Currency_code'' '''',
         add_element ''Currency_name'' ''Geen vreemde valuta'',
         add_element ''Currency_rate'' ''0''],
      SubElement ''Insurance''
        [add_element ''Amount_national_currency'' ''62.26'',
         add_element ''Amount_foreign_currency'' ''1.00875'',
         add_element ''Currency_code'' ''USD'',
         add_element ''Currency_name'' ''Geen vreemde valuta'',
         add_element ''Currency_rate'' (currency_rate CONSIGNMENT_VALUES)],
      SubElement ''Other_cost''
        [add_element ''Amount_national_currency'' ''49.6'',
         add_element ''Amount_foreign_currency'' '''',
         add_element ''Currency_code'' ''USD'',
         add_element ''Currency_name'' ''Geen vreemde valuta'',
         add_element ''Currency_rate'' (currency_rate CONSIGNMENT_VALUES)],
      SubElement ''Deduction''
        [add_element ''Amount_national_currency'' ''0'',
         add_element ''Amount_foreign_currency'' ''0'',
         add_element ''Currency_code'' ''USD'',
         add_element ''Currency_name'' ''Geen vreemde valuta'',
         add_element ''Currency_rate'' (currency_rate CONSIGNMENT_VALUES)]]"

text \<open>
  \<^verbatim>\<open>create_asycuda_xml(sad_data, items_data, filename)\<close>. The file name is received and
  never used. The final loop appends one \<^verbatim>\<open>Item\<close> per item record, numbered from 1.
\<close>

definition create_asycuda_xml :: "'f float_ops \<Rightarrow> row \<Rightarrow> row list \<Rightarrow> string \<Rightarrow> element" where
  "create_asycuda_xml ops sad_data items_data filename =
     (let form_invoice_foreign = calculate_form_totals ops items_data in
      Element ''ASYCUDA'' None
       [SubElement ''SAD''
         [SubElement ''Assessment_notice''
            [add_element ''Total_item_taxes'' (total_item_taxes CONSIGNMENT_VALUES),
             SubElement ''Items_taxes''
               [SubElement ''Item_tax''
                  [add_element ''Tax_code'' (dict_get sad_data ''Tax_code'' ''IR''),
                   add_element ''Tax_description'' (dict_get sad_data ''Tax_description'' ''Invoerrechten''),
                   add_element ''Tax_amount'' (total_item_taxes CONSIGNMENT_VALUES),
                   add_element ''Tax_mop'' (dict_get sad_data ''Tax_mop'' ''1'')]]],
          SubElement ''Properties''
            [add_element ''Sad_flow'' (dict_get sad_data ''Sad_flow'' ''I''),
             SubElement ''Forms''
               [add_element ''Number_of_the_form'' (dict_get sad_data ''Number_of_the_form'' ''1''),
                add_element ''Total_number_of_forms'' (total_forms CONSIGNMENT_VALUES)],
             add_element ''Selected_page'' (dict_get sad_data ''Selected_page'' ''1'')],
          SubElement ''Identification''
            [add_element ''Manifest_reference_number'' (manifest_reference CONSIGNMENT_VALUES),
             SubElement ''Office_segment''
               [add_element ''Customs_clearance_office_code'' (dict_get sad_data ''Customs_clearance_office_code'' ''LV01''),
                add_element ''Customs_clearance_office_name'' (dict_get sad_data ''Customs_clearance_office_name'' ''Luchthaven Vracht'')],
             SubElement ''Type''
               [add_element ''Type_of_declaration'' (dict_get sad_data ''Type_of_declaration'' ''INV''),
                add_element ''General_procedure_code'' (dict_get sad_data ''General_procedure_code'' ''4'')]],
          SubElement ''Traders''
            [SubElement ''Exporter''
               [add_element ''Exporter_code'' (dict_get sad_data ''Exporter_code'' ''''),
                add_element ''Exporter_name'' (dict_get sad_data ''Exporter_name'' '''')],
             SubElement ''Consignee''
               [add_element ''Consignee_code'' (dict_get sad_data ''Consignee_code'' ''10026483''),
                add_element ''Consignee_name'' (dict_get sad_data ''Consignee_name'' ''Dhr. Anthony Martina Paradera 1-H Paradera Paradera Aruba'')],
             SubElement ''Financial''
               [add_element ''Financial_code'' (dict_get sad_data ''Financial_code'' ''''),
                add_element ''Financial_name'' (dict_get sad_data ''Financial_name'' '''')]],
          SubElement ''Declarant''
            [add_element ''Declarant_code'' (dict_get sad_data ''Declarant_code'' ''1160650''),
             add_element ''Declarant_name'' (dict_get sad_data ''Declarant_name'' ''Dhr. Victor Hoek Alto Vista 133 Alto Vista Noord/Tanki Leendert Aruba''),
             add_element ''Declarant_representative'' (dict_get sad_data ''Declarant_representative'' ''Lizandra I. Geerman''),
             SubElement ''Reference''
               [add_element ''Year'' (dict_get sad_data ''Reference Year'' ''2025''),
                add_element ''Number'' (dict_get sad_data ''Reference Number'' '''')]],
          SubElement ''General_information''
            [SubElement ''Country''
               [add_element ''Country_first_destination'' (dict_get sad_data ''Country_first_destination'' ''US''),
                add_element ''Trading_country'' (dict_get sad_data ''Trading_country'' ''US''),
                add_element ''Country_of_origin_name'' (dict_get sad_data ''Country_of_origin_name'' ''Verenigde Staten''),
                SubElement ''Export''
                  [add_element ''Export_country_code'' (dict_get sad_data ''Export_country_code'' ''US''),
                   add_element ''Export_country_name'' (dict_get sad_data ''Export_country_name'' ''Verenigde Staten''),
                   add_element ''Export_country_region'' (dict_get sad_data ''Export_country_region'' '''')],
                SubElement ''Destination''
                  [add_element ''Destination_country_code'' (dict_get sad_data ''Destination_country_code'' ''AW''),
                   add_element ''Destination_country_name'' (dict_get sad_data ''Destination_country_name'' ''Aruba''),
                   add_element ''Destination_country_region'' (dict_get sad_data ''Destination_country_region'' '''')]],
             add_element ''Value_details'' (total_cost CONSIGNMENT_VALUES),
             add_element ''CAP'' (dict_get sad_data ''CAP'' '''')],
          SubElement ''Transport''
            [add_element ''Container_flag'' (container_flag CONSIGNMENT_VALUES),
             add_element ''Location_of_goods'' (dict_get sad_data ''Location_of_goods'' ''RT-01''),
             add_element ''Location_of_goods_address'' (dict_get sad_data ''Location_of_goods_address'' ''Sabana Berde #75''),
             SubElement ''Means_of_transport''
               [SubElement ''Departure_arrival_information''
                  [add_element ''Identity'' (dict_get sad_data ''Departure_arrival_information Identity'' ''COPA AIRLINES''),
                   add_element ''Nationality'' (dict_get sad_data ''Departure_arrival_information Nationality'' ''PA'')],
                SubElement ''Border_information''
                  [add_element ''Identity'' (dict_get sad_data ''Border_information Identity'' ''''),
                   add_element ''Nationality'' (dict_get sad_data ''Border_information Nationality'' ''''),
                   add_element ''Mode'' (dict_get sad_data ''Border_information Mode'' ''4'')]],
             SubElement ''Delivery_terms''
               [add_element ''Code'' (delivery_terms_code CONSIGNMENT_VALUES),
                add_element ''Place'' (dict_get sad_data ''Delivery_terms Place'' ''USA'')],
             SubElement ''Border_office''
               [add_element ''Code'' (dict_get sad_data ''Border_office Code'' ''LV01''),
                add_element ''Name'' (dict_get sad_data ''Border_office Name'' ''Luchthaven Vracht'')],
             SubElement ''Place_of_loading''
               [add_element ''Code'' (dict_get sad_data ''Place_of_loading Code'' ''AWAIR''),
                add_element ''Name'' (dict_get sad_data ''Place_of_loading Name'' ''Aeropuerto Reina Beatrix'')]],
          SubElement ''Financial''
            [add_element ''Deffered_payment_reference'' (dict_get sad_data ''Deffered_payment_reference'' ''''),
             add_element ''Mode_of_payment'' (dict_get sad_data ''Mode_of_payment'' ''CONTANT''),
             SubElement ''Financial_transaction''
               [add_element ''Code_1'' (dict_get sad_data ''Financial_transaction Code_1'' ''1''),
                add_element ''Code_2'' (dict_get sad_data ''Financial_transaction Code_1'' ''1'')],
             SubElement ''Bank''
               [add_element ''Branch'' (dict_get sad_data ''Bank Branch'' ''''),
                add_element ''Reference'' (dict_get sad_data ''Bank Reference'' '''')],
             SubElement ''Terms''
               [add_element ''Code'' (dict_get sad_data ''Terms Code'' ''''),
                add_element ''Description'' (dict_get sad_data ''Terms Description'' '''')],
             SubElement ''Amounts''
               [add_element ''Global_taxes'' (dict_get sad_data ''Amounts Global_taxes'' ''0''),
                add_element ''Totals_taxes'' (total_item_taxes CONSIGNMENT_VALUES)],
             SubElement ''Guarantee''
               [add_element ''Amount'' (dict_get sad_data ''Guarantee Amount'' ''0'')]],
          SubElement ''Transit''
            [add_element ''Result_of_control'' (dict_get sad_data ''Result_of_control'' '''')],
          SubElement ''Valuation''
            ([add_element ''Calculation_working_mode'' (calculation_working_mode CONSIGNMENT_VALUES),
              add_element ''Total_cost'' (total_cost CONSIGNMENT_VALUES),
              add_element ''Total_cif'' (total_cif CONSIGNMENT_VALUES)]
             @ create_valuation_subsections ops form_invoice_foreign
             @ [SubElement ''Total''
                  [add_element ''Total_invoice'' (total_invoice CONSIGNMENT_VALUES),
                   add_element ''Total_weight'' (str_int (int (length items_data)))]])],
        SubElement ''Items''
          (map (\<lambda>(i, item_data). create_item_element item_data (i + 1)) (enumerate 0 items_data))])"

subsection \<open>Serialization\<close>

text \<open>
  \<^verbatim>\<open>prettify_xml\<close> hands the tree to three library calls: \<^verbatim>\<open>ET.tostring\<close>,
  \<^verbatim>\<open>minidom.parseString\<close> and \<^verbatim>\<open>toprettyxml(indent="  ")\<close>. The model below follows
  CPython's \<^verbatim>\<open>xml.dom.minidom\<close> writer on the trees the mapper builds (tags that are plain
  XML names, no attributes, no tails):
  \<^item> an exception is a value that carries its message; the parser rejects a document whose
    text holds a character that XML 1.0 forbids (the position that the real message ends
    with is left out);
  \<^item> the parser turns every carriage return, with the line feed that may follow it, into a
    line feed;
  \<^item> an element with neither text nor children is written as an empty-element tag, an element
    whose only content is text is written on one line, any other element has each of its
    children on lines of their own, two spaces deeper;
  \<^item> character data is escaped by \<^verbatim>\<open>_write_data\<close>.
  A text that is \<^verbatim>\<open>None\<close> or empty produces no text node. \<open>texts_ok\<close> says that the
  parser accepts every text of a tree. Characters are bytes here: control characters other
  than tab, line feed and carriage return are the ones the parser rejects.
\<close>

datatype py_exception = PyException (message: string)

definition newl :: string where
  "newl = [CHR 0x0A]"

definition xml_char_ok :: "char \<Rightarrow> bool" where
  "xml_char_ok c = (c = CHR 0x09 \<or> c = CHR 0x0A \<or> c = CHR 0x0D \<or> (32::nat) \<le> of_char c)"

fun normalize_eol :: "string \<Rightarrow> string" where
  "normalize_eol [] = []"
| "normalize_eol [c] = [if c = CHR 0x0D then CHR 0x0A else c]"
| "normalize_eol (c # d # s) =
     (if c = CHR 0x0D \<and> d = CHR 0x0A then CHR 0x0A # normalize_eol s
      else if c = CHR 0x0D then CHR 0x0A # normalize_eol (d # s)
      else c # normalize_eol (d # s))"

definition escape_char :: "char \<Rightarrow> string" where
  "escape_char c =
     (if c = CHR ''&'' then ''&amp;''
      else if c = CHR ''<'' then ''&lt;''
      else if c = CHR 0x22 then ''&quot;''
      else if c = CHR ''>'' then ''&gt;''
      else [c])"

definition write_data :: "string \<Rightarrow> string" where
  "write_data data = concat (map escape_char data)"

definition text_node :: "string option \<Rightarrow> string option" where
  "text_node t = (case t of None \<Rightarrow> None | Some s \<Rightarrow> if s = [] then None else Some (normalize_eol s))"

fun writexml :: "string \<Rightarrow> element \<Rightarrow> string" where
  "writexml indent (Element tag_name t kids) =
     indent @ ''<'' @ tag_name @
     (case (text_node t, kids) of
        (None, []) \<Rightarrow> ''/>'' @ newl
      | (Some data, []) \<Rightarrow> ''>'' @ write_data data @ ''</'' @ tag_name @ ''>'' @ newl
      | (None, _ # _) \<Rightarrow>
          ''>'' @ newl @ concat (map (writexml (indent @ ''  '')) kids)
          @ indent @ ''</'' @ tag_name @ ''>'' @ newl
      | (Some data, _ # _) \<Rightarrow>
          ''>'' @ newl @ write_data (indent @ ''  '' @ data @ newl)
          @ concat (map (writexml (indent @ ''  '')) kids)
          @ indent @ ''</'' @ tag_name @ ''>'' @ newl)"

definition text_ok :: "string \<Rightarrow> bool" where
  "text_ok s = list_all xml_char_ok s"

fun texts_ok :: "element \<Rightarrow> bool" where
  "texts_ok (Element tag_name t kids) =
     ((case t of None \<Rightarrow> True | Some s \<Rightarrow> text_ok s) \<and> list_all texts_ok kids)"

definition xml_declaration :: string where
  "xml_declaration = ''<?xml version='' @ [CHR 0x22] @ ''1.0'' @ [CHR 0x22] @ '' ?>''"

definition prettify_xml :: "element \<Rightarrow> py_exception + string" where
  "prettify_xml elem =
     (if texts_ok elem
      then Inr (xml_declaration @ newl @ writexml '''' elem)
      else Inl (PyException ''not well-formed (invalid token)''))"

subsection \<open>Reading the workbook\<close>

text \<open>
  \<^verbatim>\<open>pd.read_excel(BytesIO(file_content), sheet_name=name)\<close> is a library call: it either
  raises or returns a table. The uploaded bytes are therefore modelled by what the two reads
  make of them, a function from the sheet name to the outcome of the read. A table has its
  column labels and its rows; a row maps a column label to the cell, \<open>None\<close> when
  \<^verbatim>\<open>pd.notna\<close> is false and \<open>Some s\<close> with \<open>s\<close> the \<^verbatim>\<open>str\<close> of the cell otherwise.
\<close>

type_synonym series = "string \<Rightarrow> string option"

record dataframe =
  columns :: "string list"
  df_rows :: "series list"

type_synonym workbook = "string \<Rightarrow> py_exception + dataframe"

definition df_empty :: "dataframe \<Rightarrow> bool" where
  "df_empty df = (columns df = [] \<or> df_rows df = [])"

definition row_to_dict :: "string list \<Rightarrow> series \<Rightarrow> row" where
  "row_to_dict cols r =
     foldl (\<lambda>d col. d(col \<mapsto> (case r col of Some s \<Rightarrow> s | None \<Rightarrow> ''''))) Map.empty cols"

definition read_excel_data :: "workbook \<Rightarrow> row \<times> row list" where
  "read_excel_data file_content =
     (let sad_data =
            (case file_content ''SAD'' of
               Inl e \<Rightarrow> Map.empty
             | Inr sad_df \<Rightarrow>
                 if \<not> df_empty sad_df then
                   (case df_rows sad_df of
                      sad_row # _ \<Rightarrow> row_to_dict (columns sad_df) sad_row
                    | [] \<Rightarrow> Map.empty)
                 else Map.empty);
          items_data =
            (case file_content ''Items'' of
               Inl e \<Rightarrow> []
             | Inr items_df \<Rightarrow>
                 if \<not> df_empty items_df then
                   map (row_to_dict (columns items_df)) (df_rows items_df)
                 else [])
      in (sad_data, items_data))"

subsection \<open>Converting one file\<close>

definition convert_excel_to_xml :: "'f float_ops \<Rightarrow> workbook \<Rightarrow> string \<Rightarrow> bool \<times> string" where
  "convert_excel_to_xml ops file_content filename =
     (case read_excel_data file_content of
        (sad_data, items_data) \<Rightarrow>
          if sad_data = Map.empty \<and> items_data = [] then
            (False, ''No valid data found in '' @ filename)
          else
            (case prettify_xml (create_asycuda_xml ops sad_data items_data filename) of
               Inr xml_content \<Rightarrow> (True, xml_content)
             | Inl e \<Rightarrow> (False, filename @ '' | Error: '' @ message e)))"

subsection \<open>Converting a batch\<close>

text \<open>
  \<^verbatim>\<open>convert_files\<close> receives the uploaded files of the request, \<open>None\<close> when the request
  has no \<^verbatim>\<open>files\<close> field. An upload has its file name and the outcome of \<^verbatim>\<open>file.read()\<close>.
  The archive is the list of its entries (name and content) in the order they are written;
  writing an entry to the in-memory archive is taken not to fail, so the answer of the outer
  exception handler does not occur. The progress table that the function also updates is
  kept apart from the archive and is not modelled. \<open>lower\<close> is \<^verbatim>\<open>str.lower\<close> on ASCII
  letters, \<open>endswith\<close> is \<^verbatim>\<open>str.endswith\<close> with a tuple of suffixes, and
  \<open>rsplit1_head s\<close> is \<^verbatim>\<open>s.rsplit('.', 1)[0]\<close>.
\<close>

record upload =
  upload_filename :: string
  upload_read :: "py_exception + workbook"

datatype response = Json_error string nat | Send_file "(string \<times> string) list"

definition lower_char :: "char \<Rightarrow> char" where
  "lower_char c =
     (if (65::nat) \<le> of_char c \<and> of_char c \<le> (90::nat) then char_of (of_char c + (32::nat)) else c)"

definition lower :: "string \<Rightarrow> string" where
  "lower s = map lower_char s"

definition endswith :: "string \<Rightarrow> string list \<Rightarrow> bool" where
  "endswith s ends = list_ex (\<lambda>x. suffix x s) ends"

definition rsplit1_head :: "string \<Rightarrow> string" where
  "rsplit1_head s =
     (if CHR ''.'' \<in> set s then rev (tl (dropWhile (\<lambda>c. c \<noteq> CHR ''.'') (rev s))) else s)"

fun convert_files_loop :: "'f float_ops \<Rightarrow> upload list \<Rightarrow> (string \<times> string) list \<Rightarrow> (string \<times> string) list" where
  "convert_files_loop ops [] zip_file = zip_file"
| "convert_files_loop ops (file # files) zip_file =
     convert_files_loop ops files
       (if endswith (lower (upload_filename file)) [''.xlsx'', ''.xls'', ''.xlsm''] then
          (case upload_read file of
             Inl e \<Rightarrow>
               zip_file @ [(upload_filename file @ ''_ERROR.txt'', ''Unexpected error: '' @ message e)]
           | Inr file_content \<Rightarrow>
               (case convert_excel_to_xml ops file_content (upload_filename file) of
                  (True, result) \<Rightarrow>
                    zip_file @ [(rsplit1_head (upload_filename file) @ ''.xml'', result)]
                | (False, result) \<Rightarrow>
                    zip_file @ [(upload_filename file @ ''_ERROR.txt'', ''Conversion failed: '' @ result)]))
        else zip_file)"

definition convert_files :: "'f float_ops \<Rightarrow> upload list option \<Rightarrow> response" where
  "convert_files ops request_files =
     (case request_files of
        None \<Rightarrow> Json_error ''No files uploaded'' 400
      | Some files \<Rightarrow>
          (case files of
             [] \<Rightarrow> Json_error ''No files selected'' 400
           | first # _ \<Rightarrow>
               if upload_filename first = '''' then Json_error ''No files selected'' 400
               else Send_file (convert_files_loop ops files [])))"

subsection \<open>Looking into a tree\<close>

text \<open>
  \<open>find_path\<close> follows a path of tags from an element, taking at each step the first child
  with the tag, as \<^verbatim>\<open>Element.find\<close> does. \<open>shape_of\<close> keeps the tags, their order and their
  nesting, and forgets every text.
\<close>

fun find_path :: "string list \<Rightarrow> element \<Rightarrow> element option" where
  "find_path [] e = Some e"
| "find_path (t # ts) e =
     (case List.find (\<lambda>c. tag c = t) (children e) of
        None \<Rightarrow> None
      | Some c \<Rightarrow> find_path ts c)"

datatype shape = Shape string "shape list"

fun shape_of :: "element \<Rightarrow> shape" where
  "shape_of (Element tag_name t kids) = Shape tag_name (map shape_of kids)"

text \<open>
  Properties of the input that the statements below speak about: \<open>row_ok\<close> says that every
  value of a record consists of characters that XML allows, \<open>cells_ok\<close> says the same of
  every cell of a table.
\<close>

definition row_ok :: "row \<Rightarrow> bool" where
  "row_ok d = (\<forall>s \<in> ran d. text_ok s)"


section \<open>Basic facts\<close>

subsection \<open>Elements\<close>

lemma tag_add_element [simp]: "tag (add_element t v) = t"
  by (simp add: add_element_def Let_def)

lemma children_add_element [simp]: "children (add_element t v) = []"
  by (simp add: add_element_def Let_def)

lemma tag_SubElement [simp]: "tag (SubElement t ks) = t"
  by (simp add: SubElement_def)

lemma children_SubElement [simp]: "children (SubElement t ks) = ks"
  by (simp add: SubElement_def)

lemma add_element_absent:
  "v = '''' \<or> v = ''nan'' \<or> v = ''None'' \<Longrightarrow> add_element t v = Element t None []"
  by (auto simp: add_element_def Let_def)

lemma add_element_present:
  "v \<noteq> '''' \<Longrightarrow> v \<noteq> ''nan'' \<Longrightarrow> v \<noteq> ''None'' \<Longrightarrow> add_element t v = Element t (Some v) []"
  by (simp add: add_element_def Let_def)

lemma shape_of_add_element [simp]: "shape_of (add_element t v) = Shape t []"
  by (simp add: add_element_def Let_def)

lemma shape_of_SubElement [simp]: "shape_of (SubElement t ks) = Shape t (map shape_of ks)"
  by (simp add: SubElement_def)


lemma dict_get_other: "k \<noteq> k' \<Longrightarrow> dict_get (d(k' := x)) k dflt = dict_get d k dflt"
  by (simp add: dict_get_def)

subsection \<open>Decimal strings\<close>

declare str_nat.simps [simp del]

lemma digit_char_in: "digit_char d \<in> set ''0123456789''"
  unfolding digit_char_def by (rule nth_mem) simp

lemma str_nat_digits: "set (str_nat n) \<subseteq> set ''0123456789''"
proof (induction n rule: str_nat.induct)
  case (1 n)
  show ?case
  proof (cases "n < 10")
    case True
    then show ?thesis using digit_char_in [of n] by (subst str_nat.simps) simp
  next
    case False
    then show ?thesis using 1 digit_char_in [of "n mod 10"] by (subst str_nat.simps) simp
  qed
qed

lemma str_nat_nonempty: "str_nat n \<noteq> []"
  by (subst str_nat.simps) simp

lemma str_int_nat_present:
  "str_int (int n) \<noteq> '''' \<and> str_int (int n) \<noteq> ''nan'' \<and> str_int (int n) \<noteq> ''None''"
proof -
  have "CHR ''n'' \<notin> set (str_nat n)" "CHR ''N'' \<notin> set (str_nat n)"
    using str_nat_digits [of n] by auto
  then show ?thesis using str_nat_nonempty [of n] by (auto simp: str_int_def)
qed

text \<open>
  \<open>str_nat\<close> writes the decimal digits of its argument: reading the digits back, most
  significant first, gives the number again.
\<close>

lemma digit_table: "\<forall>k \<in> set [0..<10]. (of_char (''0123456789'' ! k) :: nat) = 48 + k"
  by code_simp

lemma of_char_digit_char: "(of_char (digit_char d) :: nat) = 48 + d mod 10"
proof -
  have "d mod 10 \<in> set [0..<10]" by simp
  then show ?thesis unfolding digit_char_def using digit_table by blast
qed

lemma str_nat_reads_back:
  "foldl (\<lambda>a c. 10 * a + (of_char c - 48)) 0 (str_nat n) = n"
proof (induction n rule: str_nat.induct)
  case (1 n)
  show ?case
  proof (cases "n < 10")
    case True
    then show ?thesis by (subst str_nat.simps) (simp add: of_char_digit_char)
  next
    case False
    then have "foldl (\<lambda>a c. 10 * a + (of_char c - 48)) 0 (str_nat (n div 10)) = n div 10"
      using 1 by simp
    then show ?thesis using False
      by (subst str_nat.simps) (simp add: of_char_digit_char)
  qed
qed

subsection \<open>Form totals\<close>

text \<open>
  A value that \<^verbatim>\<open>float\<close> rejects leaves the running total as it was, and with no item
  record the total stays the integer 0, which is printed as \<^verbatim>\<open>0\<close>.
\<close>

lemma calculate_form_totals_loop_rejected:
  "dict_get item ''Invoice Amount_foreign_currency'' ''0'' = v \<Longrightarrow> v \<noteq> '''' \<Longrightarrow>
   float_of_str ops v = None \<Longrightarrow>
   calculate_form_totals_loop ops invoice_foreign_total (item # items)
     = calculate_form_totals_loop ops invoice_foreign_total items"
  by simp

lemma calculate_form_totals_no_items: "py_str ops (calculate_form_totals ops []) = ''0''"
  by (simp add: calculate_form_totals_def str_int_def str_nat.simps digit_char_def)

subsection \<open>The serializer\<close>

lemma concat_map_sublist: "c \<in> set kids \<Longrightarrow> sublist (f c) (concat (map f kids))"
proof -
  assume "c \<in> set kids"
  then obtain ys zs where "kids = ys @ c # zs" by (auto simp: in_set_conv_decomp)
  then show ?thesis by simp
qed

lemma sublist_mid: "sublist xs m \<Longrightarrow> sublist xs (a @ m @ b)"
  by (meson sublist_appendI sublist_order.order_trans)

lemma writexml_child_sublist:
  assumes "c \<in> set kids"
  shows "sublist (writexml (indent @ ''  '') c) (writexml indent (Element t x kids))"
proof -
  obtain k ks where kids: "kids = k # ks" using assms by (cases kids) auto
  have mid: "sublist (writexml (indent @ ''  '') c) (concat (map (writexml (indent @ ''  '')) kids))"
    using assms by (rule concat_map_sublist)
  show ?thesis
  proof (cases "text_node x")
    case None
    have eq: "writexml indent (Element t x kids) =
            (indent @ ''<'' @ t @ ''>'' @ newl) @ concat (map (writexml (indent @ ''  '')) kids)
             @ (indent @ ''</'' @ t @ ''>'' @ newl)"
      using None by (simp add: kids)
    show ?thesis unfolding eq by (rule sublist_mid [OF mid])
  next
    case (Some data)
    have eq: "writexml indent (Element t x kids) =
            (indent @ ''<'' @ t @ ''>'' @ newl @ write_data (indent @ ''  '' @ data @ newl))
             @ concat (map (writexml (indent @ ''  '')) kids)
             @ (indent @ ''</'' @ t @ ''>'' @ newl)"
      using Some by (simp add: kids)
    show ?thesis unfolding eq by (rule sublist_mid [OF mid])
  qed
qed

text \<open>Whatever \<open>find_path\<close> reaches in a tree is written out as part of the tree.\<close>

lemma find_path_sublist:
  "find_path p e = Some c \<Longrightarrow> \<exists>ind'. sublist (writexml ind' c) (writexml ind e)"
proof (induction p arbitrary: e ind)
  case Nil
  then show ?case by auto
next
  case (Cons t ts)
  then obtain k where k: "List.find (\<lambda>c. tag c = t) (children e) = Some k"
    and rest: "find_path ts k = Some c"
    by (auto split: option.splits)
  from k have "k \<in> set (children e)" by (auto simp: find_Some_iff)
  then have "sublist (writexml (ind @ ''  '') k) (writexml ind e)"
    using writexml_child_sublist [of k "children e" ind "tag e" "etext e"] by simp
  moreover obtain ind' where "sublist (writexml ind' c) (writexml (ind @ ''  '') k)"
    using Cons.IH [OF rest] by blast
  ultimately show ?case by (meson sublist_order.order_trans)
qed

lemma empty_leaf_written:
  assumes "find_path p root = Some (Element t None [])"
  shows "sublist (''<'' @ t @ ''/>'') (writexml ind root)"
proof -
  obtain ind' where s: "sublist (writexml ind' (Element t None [])) (writexml ind root)"
    using find_path_sublist [OF assms] by blast
  have "sublist (''<'' @ t @ ''/>'') (writexml ind' (Element t None []))"
    using sublist_appendI [of "''<'' @ t @ ''/>''" ind' newl] by (simp add: text_node_def)
  then show ?thesis using s by (meson sublist_order.order_trans)
qed

lemma empty_leaf_in_output:
  assumes "find_path p root = Some (Element t None [])" and "prettify_xml root = Inr xml_content"
  shows "sublist (''<'' @ t @ ''/>'') xml_content"
proof -
  have "sublist (''<'' @ t @ ''/>'') (writexml '''' root)"
    using assms(1) by (rule empty_leaf_written)
  moreover have "xml_content = (xml_declaration @ newl) @ writexml '''' root"
    using assms(2) by (auto simp: prettify_xml_def split: if_splits)
  ultimately show ?thesis by (metis sublist_append_leftI sublist_order.order_trans)
qed

subsection \<open>Texts that the parser accepts\<close>

lemma text_ok_simps: "text_ok [] = True" "text_ok (c # s) = (xml_char_ok c \<and> text_ok s)"
  by (simp_all add: text_ok_def)

lemma texts_ok_add_element: "text_ok v \<Longrightarrow> texts_ok (add_element t v)"
  by (simp add: add_element_def Let_def)

lemma texts_ok_SubElement: "texts_ok (SubElement t ks) = list_all texts_ok ks"
  by (simp add: SubElement_def)

lemma text_ok_dict_get: "row_ok d \<Longrightarrow> text_ok dflt \<Longrightarrow> text_ok (dict_get d k dflt)"
  by (auto simp: row_ok_def dict_get_def ran_def split: option.splits)

lemma text_ok_str_nat: "text_ok (str_nat n)"
proof -
  have "\<forall>c \<in> set ''0123456789''. xml_char_ok c" by (simp add: xml_char_ok_def)
  then show ?thesis using str_nat_digits [of n] by (auto simp: text_ok_def list_all_iff)
qed

lemma text_ok_str_int_nat: "text_ok (str_int (int n))"
  by (simp add: str_int_def text_ok_str_nat)

lemma texts_ok_item: "row_ok item_data \<Longrightarrow> texts_ok (create_item_element item_data n)"
  by (simp add: create_item_element_def create_item_supplementary_unit_def
      create_item_valuation_subsections_def texts_ok_SubElement texts_ok_add_element
      text_ok_dict_get text_ok_simps xml_char_ok_def CONSIGNMENT_VALUES_def)

lemma texts_ok_items:
  "\<forall>item_data \<in> set items_data. row_ok item_data \<Longrightarrow>
   list_all texts_ok
     (map (\<lambda>(i, item_data). create_item_element item_data (i + 1)) (enumerate k items_data))"
  by (induction items_data arbitrary: k) (simp_all add: texts_ok_item)

lemma texts_ok_asycuda:
  assumes "row_ok sad_data" and "\<forall>item_data \<in> set items_data. row_ok item_data"
    and "text_ok (py_str ops (calculate_form_totals ops items_data))"
  shows "texts_ok (create_asycuda_xml ops sad_data items_data fname)"
  using assms texts_ok_items [of items_data 0] text_ok_str_int_nat [of "length items_data"]
  by (simp add: create_asycuda_xml_def create_valuation_subsections_def Let_def
      texts_ok_SubElement texts_ok_add_element
      text_ok_dict_get text_ok_simps xml_char_ok_def CONSIGNMENT_VALUES_def)





subsection \<open>Shapes\<close>

lemma shape_of_item:
  "shape_of (create_item_element item_data n) = shape_of (create_item_element Map.empty 0)"
  by (simp add: create_item_element_def create_item_supplementary_unit_def
      create_item_valuation_subsections_def)

lemma shape_of_item_list:
  "map shape_of (map (\<lambda>(i, item_data). create_item_element item_data (i + 1)) ps)
     = replicate (length ps) (shape_of (create_item_element Map.empty 0))"
proof (induction ps)
  case Nil
  then show ?case by simp
next
  case (Cons p ps)
  obtain i item_data where p: "p = (i, item_data)" by (cases p)
  show ?case using Cons shape_of_item [of item_data "i + 1"] by (simp add: p)
qed

lemma shape_of_items:
  "map (shape_of \<circ> (\<lambda>(i, item_data). create_item_element item_data (Suc i)))
       (enumerate k items_data)
     = replicate (length items_data) (shape_of (create_item_element Map.empty 0))"
  using shape_of_item_list [of "enumerate k items_data"] by simp

lemma shape_of_asycuda:
  "shape_of (create_asycuda_xml ops sad_data items_data fname) =
     Shape ''ASYCUDA''
       [shape_of (hd (children (create_asycuda_xml (undefined :: unit float_ops) Map.empty [] []))),
        Shape ''Items'' (replicate (length items_data) (shape_of (create_item_element Map.empty 0)))]"
  by (simp add: create_asycuda_xml_def create_valuation_subsections_def Let_def shape_of_items)

section \<open>The claims\<close>

text \<open>
  The closed statements of this section leave the floating-point library unspecified
  (\<open>undefined\<close>): their inputs are chosen so that the stated result does not depend on it.
\<close>

subsection \<open>C1: leaves whose value is absent\<close>

text \<open>
  C1 says that a leaf whose resolved value is the empty string, \<^verbatim>\<open>nan\<close> or \<^verbatim>\<open>None\<close> does
  not appear in the serialized document. The program does otherwise: \<^verbatim>\<open>add_element\<close>
  creates the element first and only skips the assignment of its text. A workbook whose
  \<^verbatim>\<open>SAD\<close> sheet has a blank cell in the column \<^verbatim>\<open>Exporter_code\<close> and \<^verbatim>\<open>ACME\<close> in the
  column \<^verbatim>\<open>Exporter_name\<close>, and which has no \<^verbatim>\<open>Items\<close> sheet, converts successfully; the
  resolved value of \<^verbatim>\<open>Exporter_code\<close> is the empty string and the document contains the
  empty-element tag \<^verbatim>\<open><Exporter_code/>\<close>.
\<close>

theorem absent_leaf_omitted_counterexample:
  "dict_get
     (fst (read_excel_data
        (\<lambda>name. if name = ''SAD''
                 then Inr \<lparr>columns = [''Exporter_code'', ''Exporter_name''],
                           df_rows = [\<lambda>col. if col = ''Exporter_name'' then Some ''ACME'' else None]\<rparr>
                 else Inl (PyException ''Worksheet not found''))))
     ''Exporter_code'' '''' = ''''
   \<and> fst (convert_excel_to_xml (undefined :: unit float_ops)
        (\<lambda>name. if name = ''SAD''
                 then Inr \<lparr>columns = [''Exporter_code'', ''Exporter_name''],
                           df_rows = [\<lambda>col. if col = ''Exporter_name'' then Some ''ACME'' else None]\<rparr>
                 else Inl (PyException ''Worksheet not found''))
        ''decl.xlsx'')
   \<and> sublist ''<Exporter_code/>''
        (snd (convert_excel_to_xml (undefined :: unit float_ops)
           (\<lambda>name. if name = ''SAD''
                    then Inr \<lparr>columns = [''Exporter_code'', ''Exporter_name''],
                           df_rows = [\<lambda>col. if col = ''Exporter_name'' then Some ''ACME'' else None]\<rparr>
                    else Inl (PyException ''Worksheet not found''))
           ''decl.xlsx''))"
proof -
  let ?wb = "\<lambda>name. if name = ''SAD''
                 then Inr \<lparr>columns = [''Exporter_code'', ''Exporter_name''],
                           df_rows = [\<lambda>col. if col = ''Exporter_name'' then Some ''ACME'' else None]\<rparr>
                 else Inl (PyException ''Worksheet not found'')"
  let ?sad = "[''Exporter_code'' \<mapsto> '''', ''Exporter_name'' \<mapsto> ''ACME'']"
  let ?doc = "create_asycuda_xml (undefined :: unit float_ops) ?sad [] ''decl.xlsx''"
  have r: "read_excel_data ?wb = (?sad, [])"
    by (simp add: read_excel_data_def df_empty_def row_to_dict_def)
  have "texts_ok ?doc"
    by (rule texts_ok_asycuda)
       (simp_all add: row_ok_def text_ok_simps calculate_form_totals_def str_int_def
          str_nat.simps digit_char_def xml_char_ok_def)
  then have p: "prettify_xml ?doc = Inr (xml_declaration @ newl @ writexml '''' ?doc)"
    by (simp add: prettify_xml_def)
  have ne: "?sad \<noteq> Map.empty" by simp
  have c: "convert_excel_to_xml (undefined :: unit float_ops) ?wb ''decl.xlsx''
             = (True, xml_declaration @ newl @ writexml '''' ?doc)"
    unfolding convert_excel_to_xml_def r using ne p by simp
  have "find_path [''SAD'', ''Traders'', ''Exporter'', ''Exporter_code''] ?doc
          = Some (Element ''Exporter_code'' None [])"
    by (simp add: create_asycuda_xml_def Let_def dict_get_def add_element_absent)
  then have "sublist (''<'' @ ''Exporter_code'' @ ''/>'') (xml_declaration @ newl @ writexml '''' ?doc)"
    using p by (rule empty_leaf_in_output)
  then show ?thesis using r c by (simp add: dict_get_def)
qed

text \<open>
  C1 as amended: for every leaf whose resolved value is the empty string, \<^verbatim>\<open>nan\<close> or
  \<^verbatim>\<open>None\<close>, the element is still created, without text and without children; the writer
  renders it as an empty-element tag on a line of its own, and that tag is part of the
  serialized text of every document whose tree holds the leaf. A value other than these three
  becomes the text of the element.
\<close>

theorem absent_leaf_is_empty_element:
  "(text_content = '''' \<or> text_content = ''nan'' \<or> text_content = ''None'' \<longrightarrow>
      add_element tag_name text_content = Element tag_name None []
      \<and> writexml indent (add_element tag_name text_content) = indent @ ''<'' @ tag_name @ ''/>'' @ newl
      \<and> (find_path p root = Some (add_element tag_name text_content)
           \<and> prettify_xml root = Inr xml_content
           \<longrightarrow> sublist (''<'' @ tag_name @ ''/>'') xml_content))
   \<and> (text_content \<noteq> '''' \<and> text_content \<noteq> ''nan'' \<and> text_content \<noteq> ''None'' \<longrightarrow>
        add_element tag_name text_content = Element tag_name (Some text_content) [])"
proof (intro conjI impI)
  assume a: "text_content = '''' \<or> text_content = ''nan'' \<or> text_content = ''None''"
  then show e: "add_element tag_name text_content = Element tag_name None []"
    by (rule add_element_absent)
  show "writexml indent (add_element tag_name text_content) = indent @ ''<'' @ tag_name @ ''/>'' @ newl"
    unfolding e by (simp add: text_node_def)
  assume "find_path p root = Some (add_element tag_name text_content) \<and> prettify_xml root = Inr xml_content"
  then show "sublist (''<'' @ tag_name @ ''/>'') xml_content"
    unfolding e using empty_leaf_in_output by blast
next
  assume "text_content \<noteq> '''' \<and> text_content \<noteq> ''nan'' \<and> text_content \<noteq> ''None''"
  then show "add_element tag_name text_content = Element tag_name (Some text_content) []"
    by (simp add: add_element_present)
qed

theorem absent_leaf_is_empty_element_witness:
  "add_element ''Total_cost_itm'' ''nan'' = Element ''Total_cost_itm'' None []
   \<and> writexml ''  '' (add_element ''Total_cost_itm'' ''nan'') = ''  <Total_cost_itm/>'' @ newl
   \<and> find_path [''Total_cost_itm''] (SubElement ''Valuation_item'' [add_element ''Total_cost_itm'' ''nan''])
       = Some (add_element ''Total_cost_itm'' ''nan'')
   \<and> prettify_xml (SubElement ''Valuation_item'' [add_element ''Total_cost_itm'' ''nan''])
       = Inr (xml_declaration @ newl @ ''<Valuation_item>'' @ newl @ ''  <Total_cost_itm/>'' @ newl
              @ ''</Valuation_item>'' @ newl)
   \<and> sublist ''<Total_cost_itm/>''
       (xml_declaration @ newl @ ''<Valuation_item>'' @ newl @ ''  <Total_cost_itm/>'' @ newl
        @ ''</Valuation_item>'' @ newl)
   \<and> add_element ''Total_cost_itm'' ''70.8'' = Element ''Total_cost_itm'' (Some ''70.8'') []"
proof -
  have f: "find_path [''Total_cost_itm''] (SubElement ''Valuation_item'' [add_element ''Total_cost_itm'' ''nan''])
       = Some (add_element ''Total_cost_itm'' ''nan'')"
    by simp
  have p: "prettify_xml (SubElement ''Valuation_item'' [add_element ''Total_cost_itm'' ''nan''])
       = Inr (xml_declaration @ newl @ ''<Valuation_item>'' @ newl @ ''  <Total_cost_itm/>'' @ newl
              @ ''</Valuation_item>'' @ newl)"
    by (simp add: prettify_xml_def SubElement_def add_element_def text_node_def)
  show ?thesis
    using f p
      absent_leaf_is_empty_element [of "''nan''" "''Total_cost_itm''" "''  ''" "[''Total_cost_itm'']"
        "SubElement ''Valuation_item'' [add_element ''Total_cost_itm'' ''nan'']"
        "xml_declaration @ newl @ ''<Valuation_item>'' @ newl @ ''  <Total_cost_itm/>'' @ newl
              @ ''</Valuation_item>'' @ newl"]
      absent_leaf_is_empty_element [of "''70.8''" "''Total_cost_itm''"]
    by (simp add: text_node_def)
qed

subsection \<open>C2: the shape of the document\<close>

text \<open>
  C2: for every header record and every sequence of item records the tree has a fixed shape.
  There is one shape for the declaration-level subtree and one shape for an item subtree such
  that, whatever the header record, the item records and the file name are, the document is
  the root \<^verbatim>\<open>ASYCUDA\<close> with the declaration-level shape followed by an \<^verbatim>\<open>Items\<close> container
  that holds the item shape once per item record; tags, sibling order and nesting depth do
  not depend on the input. The \<^verbatim>\<open>Items\<close> container holds the item subtrees in input order:
  the subtree at position \<open>i\<close> is built from the \<open>i\<close>-th record.
\<close>

theorem tree_shape_is_fixed:
  "(\<exists>sad_shape item_shape.
      \<forall>(ops :: 'f float_ops) sad_data items_data fname.
        shape_of (create_asycuda_xml ops sad_data items_data fname) =
          Shape ''ASYCUDA''
            [sad_shape, Shape ''Items'' (replicate (length items_data) item_shape)])
   \<and> find_path [''Items''] (create_asycuda_xml (ops :: 'f float_ops) sad_data items_data fname) =
       Some (Element ''Items'' None
         (map (\<lambda>(i, item_data). create_item_element item_data (i + 1)) (enumerate 0 items_data)))
   \<and> (\<exists>item_shape. \<forall>item_data n. shape_of (create_item_element item_data n) = item_shape)"
proof (intro conjI)
  show "\<exists>sad_shape item_shape.
      \<forall>(ops :: 'f float_ops) sad_data items_data fname.
        shape_of (create_asycuda_xml ops sad_data items_data fname) =
          Shape ''ASYCUDA''
            [sad_shape, Shape ''Items'' (replicate (length items_data) item_shape)]"
    by (intro exI allI) (rule shape_of_asycuda)
  show "find_path [''Items''] (create_asycuda_xml ops sad_data items_data fname) =
       Some (Element ''Items'' None
         (map (\<lambda>(i, item_data). create_item_element item_data (i + 1)) (enumerate 0 items_data)))"
    by (simp add: create_asycuda_xml_def Let_def SubElement_def)
  show "\<exists>item_shape. \<forall>item_data n. shape_of (create_item_element item_data n) = item_shape"
    by (intro exI allI) (rule shape_of_item)
qed

subsection \<open>C3: the invoice total in foreign currency\<close>

text \<open>
  C3 is about the value of a sum of Python floats and about its printed form: that the
  leaf equals the sum of the decimal numbers in the column, and that the values \<^verbatim>\<open>10.5\<close>,
  empty, \<^verbatim>\<open>abc\<close> and \<^verbatim>\<open>4.5\<close> give \<^verbatim>\<open>15.0\<close>, are facts of binary floating-point parsing,
  addition and printing. The floating-point library is a parameter of this model, so the
  theory cannot state them; no theorem is given for C3. What does not depend on the library,
  the control flow of the loop, is in \<open>calculate_form_totals_loop_rejected\<close> and
  \<open>calculate_form_totals_no_items\<close>.
\<close>

subsection \<open>C4: the three supplementary-unit slots\<close>



subsection \<open>C5: the taxation block of an item\<close>

text \<open>
  C5 says that \<^verbatim>\<open>Item_taxes_amount\<close> carries the constant total of the item taxes. The
  program writes the constant \<^verbatim>\<open>duty_tax_amount\<close> there: for an item record with the single
  column \<^verbatim>\<open>Commodity_code\<close> the leaf holds \<^verbatim>\<open>4.3\<close>, while the table's
  \<^verbatim>\<open>total_item_taxes\<close> is \<^verbatim>\<open>347.75\<close>.
\<close>

theorem item_taxes_amount_counterexample:
  "find_path [''Taxation'', ''Item_taxes_amount''] (create_item_element [''Commodity_code'' \<mapsto> ''8471''] 1)
     = Some (Element ''Item_taxes_amount'' (Some ''4.3'') [])
   \<and> total_item_taxes CONSIGNMENT_VALUES = ''347.75''
   \<and> find_path [''Taxation'', ''Item_taxes_amount''] (create_item_element [''Commodity_code'' \<mapsto> ''8471''] 1)
     \<noteq> Some (Element ''Item_taxes_amount'' (Some (total_item_taxes CONSIGNMENT_VALUES)) [])"
  by (simp add: create_item_element_def add_element_present CONSIGNMENT_VALUES_def)

text \<open>
  C5 as amended: for every item record, the item's taxation block carries the constant
  \<^verbatim>\<open>duty_tax_amount\<close> as its \<^verbatim>\<open>Item_taxes_amount\<close> and a fixed
  \<^verbatim>\<open>Item_taxes_mode_of_payment\<close> \<^verbatim>\<open>1\<close>, plus one nested taxation line with the fixed duty-tax
  code \<^verbatim>\<open>IR\<close>, the three shipment constants for duty-tax base, rate and amount, and a fixed
  mode of payment \<^verbatim>\<open>1\<close>.
\<close>

theorem item_taxation_block:
  "find_path [''Taxation''] (create_item_element item_data n) =
     Some (Element ''Taxation'' None
       [Element ''Item_taxes_amount'' (Some (duty_tax_amount CONSIGNMENT_VALUES)) [],
        Element ''Item_taxes_mode_of_payment'' (Some ''1'') [],
        Element ''Taxation_line'' None
          [Element ''Duty_tax_code'' (Some ''IR'') [],
           Element ''Duty_tax_base'' (Some (duty_tax_base CONSIGNMENT_VALUES)) [],
           Element ''Duty_tax_rate'' (Some (duty_tax_rate CONSIGNMENT_VALUES)) [],
           Element ''Duty_tax_amount'' (Some (duty_tax_amount CONSIGNMENT_VALUES)) [],
           Element ''Duty_tax_MP'' (Some ''1'') []]])
   \<and> filter (\<lambda>c. tag c = ''Taxation'') (children (create_item_element item_data n)) =
       [Element ''Taxation'' None
       [Element ''Item_taxes_amount'' (Some (duty_tax_amount CONSIGNMENT_VALUES)) [],
        Element ''Item_taxes_mode_of_payment'' (Some ''1'') [],
        Element ''Taxation_line'' None
          [Element ''Duty_tax_code'' (Some ''IR'') [],
           Element ''Duty_tax_base'' (Some (duty_tax_base CONSIGNMENT_VALUES)) [],
           Element ''Duty_tax_rate'' (Some (duty_tax_rate CONSIGNMENT_VALUES)) [],
           Element ''Duty_tax_amount'' (Some (duty_tax_amount CONSIGNMENT_VALUES)) [],
           Element ''Duty_tax_MP'' (Some ''1'') []]]]"
  by (simp add: create_item_element_def add_element_present CONSIGNMENT_VALUES_def SubElement_def)

subsection \<open>C6: the two sheets fail independently\<close>






subsection \<open>C7: the entries of the archive\<close>

lemma length_convert_files_loop:
  "length (convert_files_loop ops files zip_file) =
     length zip_file
     + length (filter (\<lambda>f. endswith (lower (upload_filename f)) [''.xlsx'', ''.xls'', ''.xlsm'']) files)"
  by (induction files arbitrary: zip_file) (auto split: sum.splits prod.splits bool.splits)

lemma names_convert_files_loop:
  "\<forall>(name, data) \<in> set zip_file. suffix ''.xml'' name \<or> suffix ''_ERROR.txt'' name \<Longrightarrow>
   \<forall>(name, data) \<in> set (convert_files_loop ops files zip_file).
      suffix ''.xml'' name \<or> suffix ''_ERROR.txt'' name"
proof (induction files arbitrary: zip_file)
  case Nil
  then show ?case by simp
next
  case (Cons f files)
  show ?case
    unfolding convert_files_loop.simps
    by (rule Cons.IH)
       (use Cons.prems in \<open>auto split: sum.splits prod.splits bool.splits simp: suffix_def\<close>)
qed

text \<open>
  C7 says that the archive has one entry per submitted file. The loop of \<^verbatim>\<open>convert_files\<close>
  only enters its body for a file whose lower-cased name ends in \<^verbatim>\<open>.xlsx\<close>, \<^verbatim>\<open>.xls\<close> or
  \<^verbatim>\<open>.xlsm\<close>; any other file is passed over without an entry. A batch of one file named
  \<^verbatim>\<open>notes.txt\<close> is answered with an archive that has no entry.
\<close>

theorem archive_entry_count_counterexample:
  "convert_files (undefined :: unit float_ops)
     (Some [\<lparr>upload_filename = ''notes.txt'',
             upload_read = Inr (\<lambda>name. Inl (PyException ''File is not a zip file''))\<rparr>])
   = Send_file []
   \<and> length ([] :: (string \<times> string) list)
     \<noteq> length [\<lparr>upload_filename = ''notes.txt'',
                 upload_read = Inr (\<lambda>name. Inl (PyException ''File is not a zip file''))\<rparr>]"
  by (simp add: convert_files_def endswith_def lower_def lower_char_def suffix_to_prefix)

text \<open>
  C7 as amended: for every batch whose first file has a non-empty name, the request is
  answered with an archive, and the archive contains exactly one entry per submitted file
  whose lower-cased name ends in \<^verbatim>\<open>.xlsx\<close>, \<^verbatim>\<open>.xls\<close> or \<^verbatim>\<open>.xlsm\<close>, either the converted
  document (an entry whose name ends in \<^verbatim>\<open>.xml\<close>) or a textual error report (an entry whose
  name ends in \<^verbatim>\<open>_ERROR.txt\<close>), also when the conversion of a file fails; files with any
  other name get no entry.
\<close>

theorem archive_entry_count:
  "(convert_files ops (Some files) = Send_file entries \<longrightarrow>
      length entries =
        length (filter (\<lambda>f. endswith (lower (upload_filename f)) [''.xlsx'', ''.xls'', ''.xlsm'']) files)
      \<and> (\<forall>(name, data) \<in> set entries. suffix ''.xml'' name \<or> suffix ''_ERROR.txt'' name))
   \<and> (files \<noteq> [] \<and> upload_filename (hd files) \<noteq> '''' \<longrightarrow>
        (\<exists>entries. convert_files ops (Some files) = Send_file entries))"
  using length_convert_files_loop [of ops files "[]"] names_convert_files_loop [of "[]" ops files]
  by (auto simp: convert_files_def split: list.splits if_splits)

theorem archive_entry_count_witness:
  "convert_files (undefined :: unit float_ops)
     (Some [\<lparr>upload_filename = ''a.XLSX'', upload_read = Inl (PyException ''read failed'')\<rparr>,
            \<lparr>upload_filename = ''notes.txt'', upload_read = Inl (PyException ''read failed'')\<rparr>,
            \<lparr>upload_filename = ''b.xls'',
             upload_read = Inr (\<lambda>name. Inl (PyException ''File is not a zip file''))\<rparr>])
     = Send_file
         [(''a.XLSX_ERROR.txt'', ''Unexpected error: read failed''),
          (''b.xls_ERROR.txt'', ''Conversion failed: No valid data found in b.xls'')]
   \<and> length [(''a.XLSX_ERROR.txt'', ''Unexpected error: read failed''),
             (''b.xls_ERROR.txt'', ''Conversion failed: No valid data found in b.xls'')]
     = length (filter (\<lambda>f. endswith (lower (upload_filename f)) [''.xlsx'', ''.xls'', ''.xlsm''])
         [\<lparr>upload_filename = ''a.XLSX'', upload_read = Inl (PyException ''read failed'')\<rparr>,
          \<lparr>upload_filename = ''notes.txt'', upload_read = Inl (PyException ''read failed'')\<rparr>,
          \<lparr>upload_filename = ''b.xls'',
           upload_read = Inr (\<lambda>name. Inl (PyException ''File is not a zip file''))\<rparr>])
   \<and> length (filter (\<lambda>f. endswith (lower (upload_filename f)) [''.xlsx'', ''.xls'', ''.xlsm''])
         [\<lparr>upload_filename = ''a.XLSX'', upload_read = Inl (PyException ''read failed'')\<rparr>,
          \<lparr>upload_filename = ''notes.txt'', upload_read = Inl (PyException ''read failed'')\<rparr>,
          \<lparr>upload_filename = ''b.xls'',
           upload_read = Inr (\<lambda>name. Inl (PyException ''File is not a zip file''))\<rparr>]) = 2"
proof -
  let ?files = "[\<lparr>upload_filename = ''a.XLSX'', upload_read = Inl (PyException ''read failed'')\<rparr>,
          \<lparr>upload_filename = ''notes.txt'', upload_read = Inl (PyException ''read failed'')\<rparr>,
          \<lparr>upload_filename = ''b.xls'',
           upload_read = Inr (\<lambda>name. Inl (PyException ''File is not a zip file''))\<rparr>]"
  let ?entries = "[(''a.XLSX_ERROR.txt'', ''Unexpected error: read failed''),
          (''b.xls_ERROR.txt'', ''Conversion failed: No valid data found in b.xls'')]"
  let ?ops = "undefined :: unit float_ops"
  have lw: "lower ''a.XLSX'' = ''a.xlsx''" "lower ''notes.txt'' = ''notes.txt''"
    "lower ''b.xls'' = ''b.xls''"
    by code_simp+
  have c: "convert_files ?ops (Some ?files) = Send_file ?entries"
    by (simp add: convert_files_def endswith_def lw suffix_to_prefix
        convert_excel_to_xml_def read_excel_data_def)
  have n: "length (filter (\<lambda>f. endswith (lower (upload_filename f)) [''.xlsx'', ''.xls'', ''.xlsm'']) ?files) = 2"
    by (simp add: endswith_def lw suffix_to_prefix)
  have "length ?entries =
      length (filter (\<lambda>f. endswith (lower (upload_filename f)) [''.xlsx'', ''.xls'', ''.xlsm'']) ?files)"
    using archive_entry_count [of ?ops ?files ?entries] c by blast
  then show ?thesis using c n by (intro conjI)
qed

subsection \<open>C8: the total weight\<close>

text \<open>
  C8: for every sequence of item records, the \<^verbatim>\<open>Total_weight\<close> leaf of the declaration-level
  \<^verbatim>\<open>Total\<close> block holds the decimal string of the number of item records (reading its
  digits back, most significant first, gives that number); with three item records it holds
  \<^verbatim>\<open>3\<close>.
\<close>

theorem total_weight_is_item_count:
  "find_path [''SAD'', ''Valuation'', ''Total'', ''Total_weight'']
     (create_asycuda_xml ops sad_data items_data fname)
     = Some (Element ''Total_weight'' (Some (str_int (int (length items_data)))) [])
   \<and> foldl (\<lambda>a c. 10 * a + (of_char c - 48)) 0 (str_int (int (length items_data)))
       = length items_data
   \<and> (length items_data = 3 \<longrightarrow>
        find_path [''SAD'', ''Valuation'', ''Total'', ''Total_weight'']
          (create_asycuda_xml ops sad_data items_data fname)
          = Some (Element ''Total_weight'' (Some ''3'') []))"
proof -
  have "find_path [''SAD'', ''Valuation'', ''Total'', ''Total_weight'']
     (create_asycuda_xml ops sad_data items_data fname)
     = Some (Element ''Total_weight'' (Some (str_int (int (length items_data)))) [])"
    using str_int_nat_present [of "length items_data"]
    by (simp add: create_asycuda_xml_def create_valuation_subsections_def add_element_present Let_def)
  moreover have "str_int (int 3) = ''3''"
    by (simp add: str_int_def str_nat.simps digit_char_def)
  moreover have "foldl (\<lambda>a c. 10 * a + (of_char c - 48)) 0 (str_int (int (length items_data)))
       = length items_data"
    using str_nat_reads_back [of "length items_data"] by (simp add: str_int_def)
  ultimately show ?thesis by auto
qed

theorem total_weight_is_item_count_witness:
  "length [[''Commodity_code'' \<mapsto> ''8471''], [''Commodity_code'' \<mapsto> ''8517''], [''Commodity_code'' \<mapsto> ''9503'']] = 3
   \<and> find_path [''SAD'', ''Valuation'', ''Total'', ''Total_weight'']
       (create_asycuda_xml (undefined :: unit float_ops) [''Exporter_code'' \<mapsto> ''X123'']
          [[''Commodity_code'' \<mapsto> ''8471''], [''Commodity_code'' \<mapsto> ''8517''], [''Commodity_code'' \<mapsto> ''9503'']]
          ''decl.xlsx'')
       = Some (Element ''Total_weight'' (Some ''3'') [])"
proof -
  let ?items = "[[''Commodity_code'' \<mapsto> ''8471''], [''Commodity_code'' \<mapsto> ''8517''],
                 [''Commodity_code'' \<mapsto> ''9503'']]"
  have l: "length ?items = 3" by simp
  from total_weight_is_item_count [of "undefined :: unit float_ops" "[''Exporter_code'' \<mapsto> ''X123'']"
      ?items "''decl.xlsx''", THEN conjunct2, THEN conjunct2] l
  have "find_path [''SAD'', ''Valuation'', ''Total'', ''Total_weight'']
       (create_asycuda_xml (undefined :: unit float_ops) [''Exporter_code'' \<mapsto> ''X123'']
          ?items ''decl.xlsx'')
       = Some (Element ''Total_weight'' (Some ''3'') [])"
    by (rule mp)
  with l show ?thesis by (intro conjI)
qed

subsection \<open>C9: the total invoice\<close>

text \<open>
  C9: for every header record and every sequence of item records, the \<^verbatim>\<open>Total_invoice\<close>
  leaf holds the \<^verbatim>\<open>total_invoice\<close> value of the constant table, whatever the items are; no
  column of the input is consulted for it.
\<close>

theorem total_invoice_is_constant:
  "find_path [''SAD'', ''Valuation'', ''Total'', ''Total_invoice'']
     (create_asycuda_xml ops sad_data items_data fname)
     = Some (Element ''Total_invoice'' (Some (total_invoice CONSIGNMENT_VALUES)) [])"
  by (simp add: create_asycuda_xml_def create_valuation_subsections_def add_element_present
      CONSIGNMENT_VALUES_def Let_def)

subsection \<open>C10: the two codes of the financial transaction\<close>

text \<open>
  C10: for every header record, the leaves \<^verbatim>\<open>Code_1\<close> and \<^verbatim>\<open>Code_2\<close> of the
  \<^verbatim>\<open>Financial_transaction\<close> block carry the same value, resolved from the header column
  \<^verbatim>\<open>Financial_transaction Code_1\<close> with default \<^verbatim>\<open>1\<close>; the column
  \<^verbatim>\<open>Financial_transaction Code_2\<close> is never read: setting, changing or removing it leaves
  the whole document as it is.
\<close>

theorem financial_transaction_codes_agree:
  "(\<exists>v. find_path [''SAD'', ''Financial'', ''Financial_transaction'', ''Code_1'']
            (create_asycuda_xml ops sad_data items_data fname) = Some (Element ''Code_1'' v [])
       \<and> find_path [''SAD'', ''Financial'', ''Financial_transaction'', ''Code_2'']
            (create_asycuda_xml ops sad_data items_data fname) = Some (Element ''Code_2'' v [])
       \<and> v = etext (add_element ''Code_1'' (dict_get sad_data ''Financial_transaction Code_1'' ''1'')))
   \<and> create_asycuda_xml ops (sad_data(''Financial_transaction Code_2'' := x)) items_data fname
       = create_asycuda_xml ops sad_data items_data fname"
proof (intro conjI exI)
  show "find_path [''SAD'', ''Financial'', ''Financial_transaction'', ''Code_1'']
          (create_asycuda_xml ops sad_data items_data fname)
        = Some (Element ''Code_1''
            (etext (add_element ''Code_1'' (dict_get sad_data ''Financial_transaction Code_1'' ''1''))) [])"
    by (simp add: create_asycuda_xml_def Let_def) (simp add: add_element_def Let_def)
  show "find_path [''SAD'', ''Financial'', ''Financial_transaction'', ''Code_2'']
          (create_asycuda_xml ops sad_data items_data fname)
        = Some (Element ''Code_2''
            (etext (add_element ''Code_1'' (dict_get sad_data ''Financial_transaction Code_1'' ''1''))) [])"
    by (simp add: create_asycuda_xml_def Let_def) (simp add: add_element_def Let_def)
  show "etext (add_element ''Code_1'' (dict_get sad_data ''Financial_transaction Code_1'' ''1''))
        = etext (add_element ''Code_1'' (dict_get sad_data ''Financial_transaction Code_1'' ''1''))"
    by (rule refl)
  show "create_asycuda_xml ops (sad_data(''Financial_transaction Code_2'' := x)) items_data fname
       = create_asycuda_xml ops sad_data items_data fname"
    by (simp add: create_asycuda_xml_def Let_def dict_get_other)
qed

end
